theory Spec2Isabelle
  imports Main "HOL-Library.Word"
begin

section \<open>JavaScript strings\<close>

text \<open>
  A JavaScript string is a sequence of UTF-16 code units; \<open>length\<close>, \<open>substring\<close>,
  \<open>indexOf\<close> and indexing all count code units. A character outside the Basic
  Multilingual Plane (an emoji, say) is a surrogate pair: two code units.
\<close>

type_synonym cu = "16 word"
type_synonym jsstring = "cu list"

text \<open>ASCII literals, for writing the scenarios down.\<close>

definition js :: "string \<Rightarrow> jsstring" where
  "js s = map of_char s"

text \<open>An index argument of \<open>substring\<close> is clamped to \<open>[0, length]\<close>.\<close>

definition toIndex :: "jsstring \<Rightarrow> int \<Rightarrow> nat" where
  "toIndex s i = nat (min (max i 0) (int (length s)))"

text \<open>\<open>s.substring(a, b)\<close>: both indices clamped, then swapped when \<open>a > b\<close>.\<close>

definition substring :: "jsstring \<Rightarrow> int \<Rightarrow> int \<Rightarrow> jsstring" where
  "substring s a b =
     (let a' = toIndex s a; b' = toIndex s b
      in drop (min a' b') (take (max a' b') s))"

text \<open>\<open>s.substring(a)\<close>: the end defaults to the length.\<close>

definition substringFrom :: "jsstring \<Rightarrow> int \<Rightarrow> jsstring" where
  "substringFrom s a = substring s a (int (length s))"

text \<open>\<open>s.indexOf(needle)\<close>: the first offset where \<open>needle\<close> occurs, or \<open>-1\<close>.\<close>

fun indexOf_scan :: "jsstring \<Rightarrow> jsstring \<Rightarrow> nat \<Rightarrow> int" where
  "indexOf_scan needle [] k = (if needle = [] then int k else -1)"
| "indexOf_scan needle (c # cs) k =
     (if take (length needle) (c # cs) = needle then int k
      else indexOf_scan needle cs (Suc k))"

definition indexOf :: "jsstring \<Rightarrow> jsstring \<Rightarrow> int" where
  "indexOf s needle = indexOf_scan needle s 0"

text \<open>
  \<open>s.lastIndexOf(needle, position)\<close>: the last offset not after \<open>position\<close> (clamped
  to \<open>[0, length s - length needle]\<close>) where \<open>needle\<close> occurs, or \<open>-1\<close>. Without a
  position the search starts at the end.
\<close>

definition matchesAt :: "jsstring \<Rightarrow> jsstring \<Rightarrow> nat \<Rightarrow> bool" where
  "matchesAt s needle k =
     (k + length needle \<le> length s \<and> take (length needle) (drop k s) = needle)"

fun lastIndexOf_scan :: "jsstring \<Rightarrow> jsstring \<Rightarrow> nat \<Rightarrow> int" where
  "lastIndexOf_scan s needle 0 = (if matchesAt s needle 0 then 0 else -1)"
| "lastIndexOf_scan s needle (Suc k) =
     (if matchesAt s needle (Suc k) then int (Suc k)
      else lastIndexOf_scan s needle k)"

definition lastIndexOfAt :: "jsstring \<Rightarrow> jsstring \<Rightarrow> int \<Rightarrow> int" where
  "lastIndexOfAt s needle pos =
     (if length s < length needle then -1
      else lastIndexOf_scan s needle
             (nat (min (max pos 0) (int (length s - length needle)))))"

definition lastIndexOf :: "jsstring \<Rightarrow> jsstring \<Rightarrow> int" where
  "lastIndexOf s needle = lastIndexOfAt s needle (int (length s))"

text \<open>\<open>s.charCodeAt(i)\<close>: \<open>NaN\<close> (here \<open>None\<close>) out of range.\<close>

definition charCodeAt :: "jsstring \<Rightarrow> int \<Rightarrow> cu option" where
  "charCodeAt s i = (if 0 \<le> i \<and> i < int (length s) then Some (s ! nat i) else None)"

text \<open>\<open>s.split(sep)\<close> for a separator of one code unit; the empty string gives \<open>[""]\<close>.\<close>

fun splitOn :: "cu \<Rightarrow> jsstring \<Rightarrow> jsstring list" where
  "splitOn sep [] = [[]]"
| "splitOn sep (c # cs) =
     (if c = sep then [] # splitOn sep cs
      else (case splitOn sep cs of
              [] \<Rightarrow> [[c]]
            | p # ps \<Rightarrow> (c # p) # ps))"

text \<open>
  \<open>Array.from(s)\<close> iterates a string by code points: a high surrogate directly followed
  by a low surrogate is one element of two code units, every other code unit (a lone
  surrogate too) is an element of its own.
\<close>

definition isHighSurrogate :: "cu \<Rightarrow> bool" where
  "isHighSurrogate c = (0xD800 \<le> c \<and> c \<le> 0xDBFF)"

definition isLowSurrogate :: "cu \<Rightarrow> bool" where
  "isLowSurrogate c = (0xDC00 \<le> c \<and> c \<le> 0xDFFF)"

fun arrayFrom :: "jsstring \<Rightarrow> jsstring list" where
  "arrayFrom [] = []"
| "arrayFrom [c] = [[c]]"
| "arrayFrom (c # d # cs) =
     (if isHighSurrogate c \<and> isLowSurrogate d then [c, d] # arrayFrom cs
      else [c] # arrayFrom (d # cs))"

text \<open>\<open>xs.findIndex(p)\<close>: the first index whose element satisfies \<open>p\<close>, or \<open>-1\<close>.\<close>

fun findIndex_scan :: "('a \<Rightarrow> bool) \<Rightarrow> 'a list \<Rightarrow> nat \<Rightarrow> int" where
  "findIndex_scan p [] k = -1"
| "findIndex_scan p (x # xs) k = (if p x then int k else findIndex_scan p xs (Suc k))"

definition findIndex :: "('a \<Rightarrow> bool) \<Rightarrow> 'a list \<Rightarrow> int" where
  "findIndex p xs = findIndex_scan p xs 0"

subsection \<open>The regular expressions of the word splitter\<close>

text \<open>
  The classes \<open>\w\<close> and \<open>\s\<close> of a regular expression without the \<open>u\<close> flag: they
  test one code unit.
\<close>

definition isWordChar :: "cu \<Rightarrow> bool" where
  "isWordChar c =
     ((0x30 \<le> c \<and> c \<le> 0x39) \<or> (0x41 \<le> c \<and> c \<le> 0x5A) \<or> c = 0x5F
      \<or> (0x61 \<le> c \<and> c \<le> 0x7A))"

definition isSpace :: "cu \<Rightarrow> bool" where
  "isSpace c =
     ((0x09 \<le> c \<and> c \<le> 0x0D) \<or> c = 0x20 \<or> c = 0xA0 \<or> c = 0x1680
      \<or> (0x2000 \<le> c \<and> c \<le> 0x200A) \<or> c = 0x2028 \<or> c = 0x2029 \<or> c = 0x202F
      \<or> c = 0x205F \<or> c = 0x3000 \<or> c = 0xFEFF)"

text \<open>
  \<open>text.match(/\b\w+|\s+|[^\w\s]/g)\<close>: the successive matches, scanning from the end of
  the previous one. At a word character the first alternative needs a word boundary,
  that is a preceding code unit that is no word character (\<open>prevWord\<close> false); where
  it fails no alternative matches and the scan moves on by one code unit. A run of
  spaces is one match; any other code unit is a match of length one.
\<close>

function regexMatches :: "bool \<Rightarrow> jsstring \<Rightarrow> jsstring list" where
  "regexMatches prevWord [] = []"
| "regexMatches prevWord (c # cs) =
     (if isWordChar c then
        (if \<not> prevWord
         then (c # takeWhile isWordChar cs) # regexMatches True (dropWhile isWordChar cs)
         else regexMatches True cs)
      else if isSpace c
        then (c # takeWhile isSpace cs) # regexMatches False (dropWhile isSpace cs)
      else [c] # regexMatches False cs)"
  by pat_completeness auto
termination
  by (relation "measure (\<lambda>(p, s). length s)")
     (auto simp: le_imp_less_Suc length_dropWhile_le)

text \<open>\<open>/^\s*$/.test(s)\<close>\<close>

definition isWhitespaceStr :: "jsstring \<Rightarrow> bool" where
  "isWhitespaceStr s = list_all isSpace s"

fun splitWordBoundaries_loop :: "int \<Rightarrow> jsstring list \<Rightarrow> (int \<times> jsstring) list" where
  "splitWordBoundaries_loop currentIndex [] = []"
| "splitWordBoundaries_loop currentIndex (m # ms) =
     (currentIndex, m) # splitWordBoundaries_loop (currentIndex + int (length m)) ms"

definition splitWordBoundaries :: "jsstring \<Rightarrow> (int \<times> jsstring) list" where
  "splitWordBoundaries text = splitWordBoundaries_loop 0 (regexMatches False text)"

section \<open>JavaScript numbers\<close>

text \<open>
  Offsets and the insertion point are JavaScript numbers: IEEE doubles. A double
  represents every integer of magnitude up to \<open>2 ^ 53\<close> exactly, and a sum or
  difference whose exact value lies in that range is computed without rounding. Below,
  offsets are \<open>int\<close> and \<open>+\<close> and \<open>-\<close> are exact: this is the code's arithmetic as long
  as the operands and the result stay in that range, which \<open>exactInt\<close> names. Beyond
  it the code rounds (\<open>2 ^ 53 + 1\<close> becomes \<open>2 ^ 53\<close>) and the definitions below do
  not. Two values that satisfy \<open>smallInt\<close> have a sum and a difference in the exact
  range.
\<close>

definition exactInt :: "int \<Rightarrow> bool" where
  "exactInt x = (- (2 ^ 53) \<le> x \<and> x \<le> 2 ^ 53)"

definition smallInt :: "int \<Rightarrow> bool" where
  "smallInt x = (- (2 ^ 52) \<le> x \<and> x \<le> 2 ^ 52)"

section \<open>The line buffer\<close>

record LineBuffer =
  lines :: jsstring
  insertionPoint :: int

definition LineBuffer_new :: LineBuffer where
  "LineBuffer_new = \<lparr>lines = [], insertionPoint = 0\<rparr>"

definition len :: "LineBuffer \<Rightarrow> int" where
  "len this = int (length (lines this))"

definition setInsertionPoint :: "int \<Rightarrow> LineBuffer \<Rightarrow> LineBuffer" where
  "setInsertionPoint offset this = this\<lparr>insertionPoint := offset\<rparr>"

subsection \<open>Insertion\<close>

definition insertStr :: "jsstring \<Rightarrow> LineBuffer \<Rightarrow> LineBuffer" where
  "insertStr string this =
     \<lparr>lines = substring (lines this) 0 (insertionPoint this) @ string
              @ substringFrom (lines this) (insertionPoint this),
      insertionPoint = insertionPoint this + int (length string)\<rparr>"

definition LineBuffer_from :: "jsstring \<Rightarrow> LineBuffer" where
  "LineBuffer_from input = insertStr input LineBuffer_new"

subsection \<open>Grapheme boundaries and validity\<close>

fun getGraphemeIndices_loop :: "int \<Rightarrow> jsstring list \<Rightarrow> int list" where
  "getGraphemeIndices_loop currentIndex [] = []"
| "getGraphemeIndices_loop currentIndex (ch # chars) =
     (currentIndex + int (length ch))
       # getGraphemeIndices_loop (currentIndex + int (length ch)) chars"

definition getGraphemeIndices :: "LineBuffer \<Rightarrow> int list" where
  "getGraphemeIndices this = 0 # getGraphemeIndices_loop 0 (arrayFrom (lines this))"

definition isValid :: "LineBuffer \<Rightarrow> bool" where
  "isValid this =
     (if insertionPoint this > len this then False
      else list_ex (\<lambda>index. index = insertionPoint this) (getGraphemeIndices this)
           \<or> insertionPoint this = len this)"

definition graphemeRightIndexFromPos :: "LineBuffer \<Rightarrow> int \<Rightarrow> int" where
  "graphemeRightIndexFromPos this pos =
     (let graphemeIndices = getGraphemeIndices this;
          currentIndex = findIndex (\<lambda>index. index = pos) graphemeIndices
      in if currentIndex = -1 \<or> currentIndex + 1 \<ge> int (length graphemeIndices)
         then len this
         else graphemeIndices ! nat (currentIndex + 1))"

definition graphemeRightIndex :: "LineBuffer \<Rightarrow> int" where
  "graphemeRightIndex this =
     (let graphemeIndices = getGraphemeIndices this;
          currentIndex = findIndex (\<lambda>index. index = insertionPoint this) graphemeIndices
      in if currentIndex = -1 \<or> currentIndex + 1 \<ge> int (length graphemeIndices)
         then len this
         else graphemeIndices ! nat (currentIndex + 1))"

definition graphemeLeftIndex :: "LineBuffer \<Rightarrow> int" where
  "graphemeLeftIndex this =
     (let graphemeIndices = getGraphemeIndices this;
          currentIndex = findIndex (\<lambda>index. index = insertionPoint this) graphemeIndices
      in if currentIndex \<le> 0 then 0
         else graphemeIndices ! nat (currentIndex - 1))"

definition graphemeRight :: "LineBuffer \<Rightarrow> jsstring" where
  "graphemeRight this =
     substring (lines this) (insertionPoint this) (graphemeRightIndex this)"

definition graphemeLeft :: "LineBuffer \<Rightarrow> jsstring" where
  "graphemeLeft this =
     substring (lines this) (graphemeLeftIndex this) (insertionPoint this)"

subsection \<open>The two range primitives\<close>

definition clearRangeSafe :: "int \<Rightarrow> int \<Rightarrow> LineBuffer \<Rightarrow> LineBuffer" where
  "clearRangeSafe start0 end0 this =
     (let start = (if start0 > end0 then end0 else start0);
          end1 = (if start0 > end0 then start0 else end0)
      in if start \<ge> len this then this
         else
           (let end2 = min end1 (len this);
                ip = insertionPoint this
            in \<lparr>lines = substring (lines this) 0 start @ substringFrom (lines this) end2,
                insertionPoint =
                  (if ip > start
                   then (if ip > end2 then ip - (end2 - start) else start)
                   else ip)\<rparr>))"

definition replaceRange :: "int \<Rightarrow> int \<Rightarrow> jsstring \<Rightarrow> LineBuffer \<Rightarrow> LineBuffer" where
  "replaceRange start0 end0 replaceWith this =
     (let start = (if start0 > end0 then end0 else start0);
          end1 = (if start0 > end0 then start0 else end0)
      in if start \<ge> len this then this
         else
           (let end2 = min end1 (len this);
                ip = insertionPoint this
            in \<lparr>lines = substring (lines this) 0 start @ replaceWith
                         @ substringFrom (lines this) end2,
                insertionPoint =
                  (if ip > start
                   then (if ip > end2
                         then start + int (length replaceWith) + (ip - end2)
                         else start + int (length replaceWith))
                   else ip)\<rparr>))"

subsection \<open>Lines\<close>

definition findCurrentLineEnd :: "LineBuffer \<Rightarrow> int" where
  "findCurrentLineEnd this =
     (let fromCursor = substringFrom (lines this) (insertionPoint this);
          newlineIndex = indexOf fromCursor [0x0A]
      in if newlineIndex = -1 then len this
         else
           (let absoluteIndex = newlineIndex + insertionPoint this
            in if absoluteIndex > 0 \<and> charCodeAt (lines this) (absoluteIndex - 1) = Some 13
               then absoluteIndex - 1
               else absoluteIndex))"

definition moveToStart :: "LineBuffer \<Rightarrow> LineBuffer" where
  "moveToStart this = this\<lparr>insertionPoint := 0\<rparr>"

definition moveToLineStart :: "LineBuffer \<Rightarrow> LineBuffer" where
  "moveToLineStart this =
     (let beforeCursor = substring (lines this) 0 (insertionPoint this);
          lastNewline = lastIndexOf beforeCursor [0x0A]
      in this\<lparr>insertionPoint := (if lastNewline = -1 then 0 else lastNewline + 1)\<rparr>)"

definition moveToLineEnd :: "LineBuffer \<Rightarrow> LineBuffer" where
  "moveToLineEnd this = this\<lparr>insertionPoint := findCurrentLineEnd this\<rparr>"

definition moveToEnd :: "LineBuffer \<Rightarrow> LineBuffer" where
  "moveToEnd this = this\<lparr>insertionPoint := len this\<rparr>"

definition moveLineUp :: "LineBuffer \<Rightarrow> LineBuffer" where
  "moveLineUp this =
     (let beforeCursor = substring (lines this) 0 (insertionPoint this);
          lines' = splitOn 0x0A beforeCursor
      in if length lines' \<le> 1 then this
         else
           (let currentLineIndex = length lines' - 1;
                currentLineStart = lastIndexOf beforeCursor [0x0A] + 1;
                currentLineOffset = insertionPoint this - currentLineStart;
                targetLine = lines' ! (currentLineIndex - 1);
                targetLineStart =
                  lastIndexOfAt beforeCursor [0x0A] (currentLineStart - 2) + 1;
                newOffset = min currentLineOffset (int (length targetLine))
            in this\<lparr>insertionPoint := targetLineStart + newOffset\<rparr>))"

definition moveLineDown :: "LineBuffer \<Rightarrow> LineBuffer" where
  "moveLineDown this =
     (let afterCursor = substringFrom (lines this) (insertionPoint this);
          lines' = splitOn 0x0A afterCursor
      in if length lines' \<le> 1 then this
         else
           (let beforeCursor = substring (lines this) 0 (insertionPoint this);
                currentLineStart = lastIndexOf beforeCursor [0x0A] + 1;
                currentLineOffset = insertionPoint this - currentLineStart;
                nextLineStart = insertionPoint this + int (length (lines' ! 0)) + 1;
                nextLine = lines' ! 1;
                newOffset = min currentLineOffset (int (length nextLine))
            in this\<lparr>insertionPoint := nextLineStart + newOffset\<rparr>))"

subsection \<open>Words\<close>

text \<open>
  Each index function splits the text on one side of the cursor and walks the pieces;
  the loops return at the first piece that qualifies.
\<close>

fun wordRightIndex_loop :: "LineBuffer \<Rightarrow> (int \<times> jsstring) list \<Rightarrow> int" where
  "wordRightIndex_loop this [] = len this"
| "wordRightIndex_loop this ((index, word) # words) =
     (if \<not> isWhitespaceStr word then insertionPoint this + index + int (length word)
      else wordRightIndex_loop this words)"

definition wordRightIndex :: "LineBuffer \<Rightarrow> int" where
  "wordRightIndex this =
     wordRightIndex_loop this
       (splitWordBoundaries (substringFrom (lines this) (insertionPoint this)))"

fun bigWordRightIndex_loop :: "LineBuffer \<Rightarrow> bool \<Rightarrow> (int \<times> jsstring) list \<Rightarrow> int" where
  "bigWordRightIndex_loop this foundWs [] = len this"
| "bigWordRightIndex_loop this foundWs ((index, word) # words) =
     (let foundWs' = (foundWs \<or> isWhitespaceStr word)
      in if foundWs' \<and> \<not> isWhitespaceStr word
         then insertionPoint this + index + int (length word)
         else bigWordRightIndex_loop this foundWs' words)"

definition bigWordRightIndex :: "LineBuffer \<Rightarrow> int" where
  "bigWordRightIndex this =
     bigWordRightIndex_loop this False
       (splitWordBoundaries (substringFrom (lines this) (insertionPoint this)))"

fun wordRightEndIndex_loop :: "LineBuffer \<Rightarrow> bool \<Rightarrow> (int \<times> jsstring) list \<Rightarrow> int" where
  "wordRightEndIndex_loop this foundNonWs [] = len this"
| "wordRightEndIndex_loop this foundNonWs ((index, word) # words) =
     (if \<not> isWhitespaceStr word then wordRightEndIndex_loop this True words
      else if foundNonWs then insertionPoint this + index
      else wordRightEndIndex_loop this foundNonWs words)"

definition wordRightEndIndex :: "LineBuffer \<Rightarrow> int" where
  "wordRightEndIndex this =
     wordRightEndIndex_loop this False
       (splitWordBoundaries (substringFrom (lines this) (insertionPoint this)))"

text \<open>The source repeats the body of \<open>wordRightEndIndex\<close> word for word.\<close>

definition bigWordRightEndIndex :: "LineBuffer \<Rightarrow> int" where
  "bigWordRightEndIndex this =
     wordRightEndIndex_loop this False
       (splitWordBoundaries (substringFrom (lines this) (insertionPoint this)))"

fun wordRightStartIndex_loop :: "LineBuffer \<Rightarrow> (int \<times> jsstring) list \<Rightarrow> int" where
  "wordRightStartIndex_loop this [] = len this"
| "wordRightStartIndex_loop this ((index, word) # words) =
     (if \<not> isWhitespaceStr word then insertionPoint this + index
      else wordRightStartIndex_loop this words)"

definition wordRightStartIndex :: "LineBuffer \<Rightarrow> int" where
  "wordRightStartIndex this =
     wordRightStartIndex_loop this
       (splitWordBoundaries (substringFrom (lines this) (insertionPoint this)))"

fun bigWordRightStartIndex_loop :: "LineBuffer \<Rightarrow> bool \<Rightarrow> (int \<times> jsstring) list \<Rightarrow> int" where
  "bigWordRightStartIndex_loop this foundWs [] = len this"
| "bigWordRightStartIndex_loop this foundWs ((index, word) # words) =
     (let foundWs' = (foundWs \<or> isWhitespaceStr word)
      in if foundWs' \<and> \<not> isWhitespaceStr word then insertionPoint this + index
         else bigWordRightStartIndex_loop this foundWs' words)"

definition bigWordRightStartIndex :: "LineBuffer \<Rightarrow> int" where
  "bigWordRightStartIndex this =
     bigWordRightStartIndex_loop this False
       (splitWordBoundaries (substringFrom (lines this) (insertionPoint this)))"

text \<open>The leftward loops run from the last piece down: here over the reversed list.\<close>

fun wordLeftIndex_loop :: "(int \<times> jsstring) list \<Rightarrow> int" where
  "wordLeftIndex_loop [] = 0"
| "wordLeftIndex_loop ((index, word) # words) =
     (if \<not> isWhitespaceStr word then index else wordLeftIndex_loop words)"

definition wordLeftIndex :: "LineBuffer \<Rightarrow> int" where
  "wordLeftIndex this =
     wordLeftIndex_loop
       (rev (splitWordBoundaries (substring (lines this) 0 (insertionPoint this))))"

fun bigWordLeftIndex_loop :: "bool \<Rightarrow> (int \<times> jsstring) list \<Rightarrow> int" where
  "bigWordLeftIndex_loop foundWs [] = 0"
| "bigWordLeftIndex_loop foundWs ((index, word) # words) =
     (let foundWs' = (foundWs \<or> isWhitespaceStr word)
      in if foundWs' \<and> \<not> isWhitespaceStr word then index
         else bigWordLeftIndex_loop foundWs' words)"

definition bigWordLeftIndex :: "LineBuffer \<Rightarrow> int" where
  "bigWordLeftIndex this =
     bigWordLeftIndex_loop False
       (rev (splitWordBoundaries (substring (lines this) 0 (insertionPoint this))))"

subsection \<open>Cursor moves\<close>

definition moveRight :: "LineBuffer \<Rightarrow> LineBuffer" where
  "moveRight this = this\<lparr>insertionPoint := graphemeRightIndex this\<rparr>"

definition moveLeft :: "LineBuffer \<Rightarrow> LineBuffer" where
  "moveLeft this = this\<lparr>insertionPoint := graphemeLeftIndex this\<rparr>"

definition moveWordLeft :: "LineBuffer \<Rightarrow> LineBuffer" where
  "moveWordLeft this = this\<lparr>insertionPoint := wordLeftIndex this\<rparr>"

definition moveBigWordLeft :: "LineBuffer \<Rightarrow> LineBuffer" where
  "moveBigWordLeft this = this\<lparr>insertionPoint := bigWordLeftIndex this\<rparr>"

definition moveWordRight :: "LineBuffer \<Rightarrow> LineBuffer" where
  "moveWordRight this = this\<lparr>insertionPoint := wordRightIndex this\<rparr>"

definition moveWordRightStart :: "LineBuffer \<Rightarrow> LineBuffer" where
  "moveWordRightStart this = this\<lparr>insertionPoint := wordRightStartIndex this\<rparr>"

definition moveBigWordRightStart :: "LineBuffer \<Rightarrow> LineBuffer" where
  "moveBigWordRightStart this = this\<lparr>insertionPoint := bigWordRightStartIndex this\<rparr>"

definition moveWordRightEnd :: "LineBuffer \<Rightarrow> LineBuffer" where
  "moveWordRightEnd this = this\<lparr>insertionPoint := wordRightEndIndex this\<rparr>"

definition moveBigWordRightEnd :: "LineBuffer \<Rightarrow> LineBuffer" where
  "moveBigWordRightEnd this = this\<lparr>insertionPoint := bigWordRightEndIndex this\<rparr>"

subsection \<open>Clearing and deleting\<close>

definition clear :: "LineBuffer \<Rightarrow> LineBuffer" where
  "clear this = \<lparr>lines = [], insertionPoint = 0\<rparr>"

definition clearToEnd :: "LineBuffer \<Rightarrow> LineBuffer" where
  "clearToEnd this = this\<lparr>lines := substring (lines this) 0 (insertionPoint this)\<rparr>"

definition clearToLineEnd :: "LineBuffer \<Rightarrow> LineBuffer" where
  "clearToLineEnd this =
     (let lineEnd = findCurrentLineEnd this
      in this\<lparr>lines := substring (lines this) 0 (insertionPoint this)
                        @ substringFrom (lines this) lineEnd\<rparr>)"

definition clearToInsertionPoint :: "LineBuffer \<Rightarrow> LineBuffer" where
  "clearToInsertionPoint this =
     \<lparr>lines = substringFrom (lines this) (insertionPoint this), insertionPoint = 0\<rparr>"

definition deleteLeftGrapheme :: "LineBuffer \<Rightarrow> LineBuffer" where
  "deleteLeftGrapheme this =
     (let leftIndex = graphemeLeftIndex this
      in clearRangeSafe leftIndex (insertionPoint this) this)"

definition deleteRightGrapheme :: "LineBuffer \<Rightarrow> LineBuffer" where
  "deleteRightGrapheme this =
     (let rightIndex = graphemeRightIndex this
      in clearRangeSafe (insertionPoint this) rightIndex this)"

definition deleteWordLeft :: "LineBuffer \<Rightarrow> LineBuffer" where
  "deleteWordLeft this =
     (let leftIndex = wordLeftIndex this
      in clearRangeSafe leftIndex (insertionPoint this) this)"

definition deleteWordRight :: "LineBuffer \<Rightarrow> LineBuffer" where
  "deleteWordRight this =
     (let rightIndex = wordRightIndex this
      in clearRangeSafe (insertionPoint this) rightIndex this)"

subsection \<open>Swapping graphemes\<close>

text \<open>An empty string is falsy: \<open>leftGrapheme && rightGrapheme\<close> needs both non-empty.\<close>

definition swapGraphemes :: "LineBuffer \<Rightarrow> LineBuffer" where
  "swapGraphemes this =
     (let rightIndex = graphemeRightIndex this
      in if rightIndex \<ge> len this then this
         else
           (let leftGrapheme = graphemeLeft this;
                rightGrapheme = graphemeRight this
            in if leftGrapheme \<noteq> [] \<and> rightGrapheme \<noteq> []
               then
                 (let leftIndex = graphemeLeftIndex this;
                      this1 = replaceRange leftIndex (insertionPoint this) rightGrapheme this
                  in replaceRange (insertionPoint this1) rightIndex leftGrapheme this1)
               else this))"

subsection \<open>Searching for a character\<close>

text \<open>The searches return \<open>null\<close> (here \<open>None\<close>) when nothing is found.\<close>

definition findCharRight :: "jsstring \<Rightarrow> bool \<Rightarrow> LineBuffer \<Rightarrow> int option" where
  "findCharRight c currentLine this =
     (let searchStart = insertionPoint this;
          searchEnd = (if currentLine then findCurrentLineEnd this else len this);
          searchText = substring (lines this) searchStart searchEnd;
          index = indexOf searchText c
      in if index = -1 then None else Some (searchStart + index))"

definition findCharLeft :: "jsstring \<Rightarrow> bool \<Rightarrow> LineBuffer \<Rightarrow> int option" where
  "findCharLeft c currentLine this =
     (let searchEnd = insertionPoint this;
          searchStart =
            (if currentLine
             then lastIndexOf (substring (lines this) 0 (insertionPoint this)) [0x0A] + 1
             else 0);
          searchText = substring (lines this) searchStart searchEnd;
          index = lastIndexOf searchText c
      in if index = -1 then None else Some (searchStart + index))"

text \<open>The four moves return the new insertion point along with the buffer.\<close>

definition moveRightUntil :: "jsstring \<Rightarrow> bool \<Rightarrow> LineBuffer \<Rightarrow> int \<times> LineBuffer" where
  "moveRightUntil c currentLine this =
     (let this' = (case findCharRight c currentLine this of
                     Some found \<Rightarrow> this\<lparr>insertionPoint := found\<rparr>
                   | None \<Rightarrow> this)
      in (insertionPoint this', this'))"

definition moveRightBefore :: "jsstring \<Rightarrow> bool \<Rightarrow> LineBuffer \<Rightarrow> int \<times> LineBuffer" where
  "moveRightBefore c currentLine this =
     (let this' = (case findCharRight c currentLine this of
                     Some found \<Rightarrow> this\<lparr>insertionPoint := found\<rparr>
                   | None \<Rightarrow> this)
      in (insertionPoint this', this'))"

definition moveLeftUntil :: "jsstring \<Rightarrow> bool \<Rightarrow> LineBuffer \<Rightarrow> int \<times> LineBuffer" where
  "moveLeftUntil c currentLine this =
     (let this' = (case findCharLeft c currentLine this of
                     Some found \<Rightarrow> this\<lparr>insertionPoint := found\<rparr>
                   | None \<Rightarrow> this)
      in (insertionPoint this', this'))"

definition moveLeftBefore :: "jsstring \<Rightarrow> bool \<Rightarrow> LineBuffer \<Rightarrow> int \<times> LineBuffer" where
  "moveLeftBefore c currentLine this =
     (let this' = (case findCharLeft c currentLine this of
                     Some found \<Rightarrow> this\<lparr>insertionPoint := found\<rparr>
                   | None \<Rightarrow> this)
      in (insertionPoint this', this'))"

definition deleteRightUntilChar :: "jsstring \<Rightarrow> bool \<Rightarrow> LineBuffer \<Rightarrow> LineBuffer" where
  "deleteRightUntilChar c currentLine this =
     (case findCharRight c currentLine this of
        Some found \<Rightarrow> clearRangeSafe (insertionPoint this) found this
      | None \<Rightarrow> this)"

definition deleteRightBeforeChar :: "jsstring \<Rightarrow> bool \<Rightarrow> LineBuffer \<Rightarrow> LineBuffer" where
  "deleteRightBeforeChar c currentLine this =
     (case findCharRight c currentLine this of
        Some found \<Rightarrow> clearRangeSafe (insertionPoint this) found this
      | None \<Rightarrow> this)"

definition deleteLeftUntilChar :: "jsstring \<Rightarrow> bool \<Rightarrow> LineBuffer \<Rightarrow> LineBuffer" where
  "deleteLeftUntilChar c currentLine this =
     (case findCharLeft c currentLine this of
        Some found \<Rightarrow> clearRangeSafe found (insertionPoint this) this
      | None \<Rightarrow> this)"

definition deleteLeftBeforeChar :: "jsstring \<Rightarrow> bool \<Rightarrow> LineBuffer \<Rightarrow> LineBuffer" where
  "deleteLeftBeforeChar c currentLine this =
     (case findCharLeft c currentLine this of
        Some found \<Rightarrow> clearRangeSafe found (insertionPoint this) this
      | None \<Rightarrow> this)"

subsection \<open>Matching pairs\<close>

text \<open>
  The loop reads the buffer one code unit at a time (\<open>this.lines[i]\<close> is a string of
  length one) and compares it with the two delimiter strings. The stack of open
  offsets is a list with its top at the head.
\<close>

fun findMatchingPair_loop ::
  "jsstring \<Rightarrow> jsstring \<Rightarrow> int \<Rightarrow> nat \<Rightarrow> jsstring \<Rightarrow> nat list \<Rightarrow> (int \<times> int) option" where
  "findMatchingPair_loop leftChar rightChar cursor i [] stack = None"
| "findMatchingPair_loop leftChar rightChar cursor i (c # rest) stack =
     (if [c] = leftChar
        then findMatchingPair_loop leftChar rightChar cursor (Suc i) rest (i # stack)
      else if [c] = rightChar then
        (case stack of
           [] \<Rightarrow> findMatchingPair_loop leftChar rightChar cursor (Suc i) rest []
         | leftIndex # stack' \<Rightarrow>
             if int i = cursor then Some (int leftIndex, int i)
             else if int leftIndex = cursor then Some (int leftIndex, int i)
             else findMatchingPair_loop leftChar rightChar cursor (Suc i) rest stack')
      else findMatchingPair_loop leftChar rightChar cursor (Suc i) rest stack)"

definition findMatchingPair ::
  "jsstring \<Rightarrow> jsstring \<Rightarrow> int \<Rightarrow> LineBuffer \<Rightarrow> (int \<times> int) option" where
  "findMatchingPair leftChar rightChar cursor this =
     findMatchingPair_loop leftChar rightChar cursor 0 (lines this) []"

section \<open>The laws as the specification words them\<close>

text \<open>
  The canonical range law for \<open>clearRangeSafe(start, end)\<close>: normalise so that
  \<open>start \<le> end\<close>, clamp \<open>end\<close> to the length, remove \<open>[start, end)\<close>; the cursor is
  unchanged before \<open>start\<close>, becomes \<open>start\<close> inside \<open>[start, end]\<close>, and moves left by
  \<open>end - start\<close> behind \<open>end\<close>.
\<close>

definition clearRangeSafe_spec :: "int \<Rightarrow> int \<Rightarrow> LineBuffer \<Rightarrow> LineBuffer" where
  "clearRangeSafe_spec start0 end0 this =
     (let start = min start0 end0;
          end1 = min (max start0 end0) (len this);
          ip = insertionPoint this
      in \<lparr>lines = take (nat start) (lines this) @ drop (nat end1) (lines this),
          insertionPoint =
            (if ip < start then ip
             else if ip \<le> end1 then start
             else ip - (end1 - start))\<rparr>)"

text \<open>
  The same law for \<open>replaceRange(start, end, text)\<close>, with the length of \<open>text\<close> added
  when the cursor was behind the range. With \<open>start = end = length\<close> it appends.
\<close>

definition replaceRange_spec :: "int \<Rightarrow> int \<Rightarrow> jsstring \<Rightarrow> LineBuffer \<Rightarrow> LineBuffer" where
  "replaceRange_spec start0 end0 text this =
     (let start = min start0 end0;
          end1 = min (max start0 end0) (len this);
          ip = insertionPoint this
      in \<lparr>lines = take (nat start) (lines this) @ text @ drop (nat end1) (lines this),
          insertionPoint =
            (if ip < start then ip
             else if ip \<le> end1 then start
             else ip + (int (length text) - (end1 - start)))\<rparr>)"



section \<open>Auxiliary facts\<close>

subsection \<open>Substrings\<close>

lemma substring_0: "substring s 0 a = take (nat a) s"
  by (auto simp: substring_def toIndex_def Let_def min_def max_def)

lemma substringFrom_drop: "substringFrom s a = drop (nat a) s"
  by (auto simp: substringFrom_def substring_def toIndex_def Let_def min_def max_def)

lemma substring_ordered:
  "0 \<le> a \<Longrightarrow> a \<le> b \<Longrightarrow> substring s a b = drop (nat a) (take (nat b) s)"
  by (auto simp: substring_def toIndex_def Let_def min_def max_def)

lemma substring_Nil: "substring [] a b = []"
  by (simp add: substring_def)

lemma substringFrom_Nil: "substringFrom [] a = []"
  by (simp add: substringFrom_def substring_Nil)

lemma indexOf_newline_head: "indexOf (0x0A # rest) [0x0A] = 0"
  by (simp add: indexOf_def)

subsection \<open>Grapheme indices\<close>

text \<open>The indices start at 0 and never decrease.\<close>

lemma getGraphemeIndices_loop_sorted:
  "sorted (c # getGraphemeIndices_loop c chars)"
  by (induction chars arbitrary: c) (auto, force)

lemma getGraphemeIndices_sorted: "sorted (getGraphemeIndices this)"
  by (simp only: getGraphemeIndices_def getGraphemeIndices_loop_sorted)

lemma getGraphemeIndices_nonneg: "x \<in> set (getGraphemeIndices this) \<Longrightarrow> 0 \<le> x"
  using getGraphemeIndices_loop_sorted [of 0 "arrayFrom (lines this)"]
  by (auto simp: getGraphemeIndices_def)

text \<open>
  An offset whose preceding code unit is no high surrogate is one of the indices: only
  the middle of a surrogate pair is skipped.
\<close>

lemma getGraphemeIndices_loop_boundary:
  "0 < k \<Longrightarrow> k \<le> length xs \<Longrightarrow> \<not> isHighSurrogate (xs ! (k - 1)) \<Longrightarrow>
   c + int k \<in> set (getGraphemeIndices_loop c (arrayFrom xs))"
proof (induction xs arbitrary: k c rule: arrayFrom.induct)
  case 1
  then show ?case by simp
next
  case (2 x)
  then show ?case by simp
next
  case (3 x d cs)
  show ?case
  proof (cases "isHighSurrogate x \<and> isLowSurrogate d")
    case True
    consider "k = 1" | "k = 2" | j where "k = Suc (Suc (Suc j))"
      using \<open>0 < k\<close> by (metis Suc_1 gr0_implies_Suc not0_implies_Suc One_nat_def)
    then show ?thesis
    proof cases
      case 1
      with 3(5) True show ?thesis by simp
    next
      case 2
      with True show ?thesis by simp
    next
      case (3 j)
      have "c + 2 + int (Suc j) \<in> set (getGraphemeIndices_loop (c + 2) (arrayFrom cs))"
        using "3.prems" 3 by (intro "3.IH"(1)[OF True]) auto
      moreover have "c + 2 + int (Suc j) = c + int k" using 3 by simp
      ultimately have "c + int k \<in> set (getGraphemeIndices_loop (c + 2) (arrayFrom cs))"
        by (simp only:)
      then show ?thesis using True by simp
    qed
  next
    case False
    consider "k = 1" | j where "k = Suc (Suc j)"
      using \<open>0 < k\<close> by (metis gr0_implies_Suc not0_implies_Suc One_nat_def)
    then show ?thesis
    proof cases
      case 1
      with False show ?thesis by auto
    next
      case (2 j)
      have "c + 1 + int (Suc j) \<in> set (getGraphemeIndices_loop (c + 1) (arrayFrom (d # cs)))"
        using "3.prems" 2 by (intro "3.IH"(2)[OF False]) auto
      moreover have "c + 1 + int (Suc j) = c + int k" using 2 by simp
      ultimately have
        "c + int k \<in> set (getGraphemeIndices_loop (c + 1) (arrayFrom (d # cs)))"
        by (simp only:)
      then show ?thesis using False by auto
    qed
  qed
qed

text \<open>\<open>findIndex\<close> fails with \<open>-1\<close> or returns a position that satisfies the test.\<close>

lemma findIndex_scan_result:
  "findIndex_scan p xs k = -1
   \<or> (\<exists>j < length xs. findIndex_scan p xs k = int (k + j) \<and> p (xs ! j))"
proof (induction xs arbitrary: k)
  case Nil
  then show ?case by simp
next
  case (Cons x xs)
  show ?case
  proof (cases "p x")
    case True
    then show ?thesis by auto
  next
    case False
    from Cons.IH [of "Suc k"] show ?thesis
    proof
      assume "findIndex_scan p xs (Suc k) = -1"
      with False show ?thesis by simp
    next
      assume "\<exists>j<length xs. findIndex_scan p xs (Suc k) = int (Suc k + j) \<and> p (xs ! j)"
      then obtain j where "j < length xs" "findIndex_scan p xs (Suc k) = int (Suc k + j)"
        "p (xs ! j)" by blast
      with False have "Suc j < length (x # xs) \<and>
          findIndex_scan p (x # xs) k = int (k + Suc j) \<and> p ((x # xs) ! Suc j)"
        by simp
      then show ?thesis by blast
    qed
  qed
qed

lemma graphemeLeftIndex_bounds:
  assumes "0 \<le> insertionPoint this"
  shows "0 \<le> graphemeLeftIndex this \<and> graphemeLeftIndex this \<le> insertionPoint this"
proof -
  let ?is = "getGraphemeIndices this"
  let ?ci = "findIndex (\<lambda>index. index = insertionPoint this) ?is"
  show ?thesis
  proof (cases "?ci \<le> 0")
    case True
    with assms show ?thesis by (simp add: graphemeLeftIndex_def Let_def)
  next
    case False
    with findIndex_scan_result [of "\<lambda>index. index = insertionPoint this" ?is 0]
    obtain j where j: "j < length ?is" "?ci = int j" "?is ! j = insertionPoint this"
      by (auto simp: findIndex_def)
    with False have "0 < j" by simp
    then have "?is ! (j - 1) \<le> ?is ! j"
      using j(1) getGraphemeIndices_sorted [of this] by (simp add: sorted_iff_nth_mono)
    moreover have "0 \<le> ?is ! (j - 1)"
      using j(1) by (intro getGraphemeIndices_nonneg [of _ this]) simp
    moreover have "graphemeLeftIndex this = ?is ! (j - 1)"
      using False j(2) \<open>0 < j\<close> by (simp add: graphemeLeftIndex_def Let_def nat_diff_distrib')
    ultimately show ?thesis using j(3) by simp
  qed
qed

lemma isValid_range:
  "isValid this \<Longrightarrow> 0 \<le> insertionPoint this \<and> insertionPoint this \<le> len this"
  by (auto simp: isValid_def list_ex_iff len_def dest: getGraphemeIndices_nonneg
        split: if_splits)

subsection \<open>The range primitives unfolded\<close>

lemma clearRangeSafe_unfold:
  "clearRangeSafe start0 end0 this =
     (if len this \<le> min start0 end0 then this else clearRangeSafe_spec start0 end0 this)"
  by (auto simp: clearRangeSafe_def clearRangeSafe_spec_def Let_def substring_0
        substringFrom_drop min_def max_def)

text \<open>
  The guard only shows on a cursor beyond the end of the buffer: with the cursor in
  range the two agree, in exact integer arithmetic, for all arguments.
\<close>

lemma clearRangeSafe_valid_cursor:
  "insertionPoint this \<le> len this \<Longrightarrow>
   clearRangeSafe start0 end0 this = clearRangeSafe_spec start0 end0 this"
  by (cases this)
     (auto simp: clearRangeSafe_def clearRangeSafe_spec_def Let_def substring_0
        substringFrom_drop min_def max_def len_def)

lemma replaceRange_unfold:
  "replaceRange start0 end0 text this =
     (let start = min start0 end0;
          end1 = min (max start0 end0) (len this);
          ip = insertionPoint this
      in if len this \<le> start then this
         else
           \<lparr>lines = take (nat start) (lines this) @ text @ drop (nat end1) (lines this),
            insertionPoint =
              (if ip \<le> start then ip
               else if ip \<le> end1 then start + int (length text)
               else ip + (int (length text) - (end1 - start)))\<rparr>)"
  by (auto simp: replaceRange_def Let_def substring_0 substringFrom_drop min_def max_def)

text \<open>
  With arguments, cursor and lengths of magnitude at most \<open>2 ^ 52\<close>, every value the
  two primitives compute for the cursor (\<open>end - start\<close>; \<open>start + replaceWith.length\<close>
  and \<open>insertionPoint - end\<close>; the new insertion point) is in the range where doubles
  are exact.
\<close>

lemma clearRangeSafe_exact:
  assumes "smallInt start0" and "smallInt end0" and "smallInt (insertionPoint this)"
    and "len this \<le> 2 ^ 52"
  shows "exactInt (min (max start0 end0) (len this) - min start0 end0)"
    and "smallInt (insertionPoint (clearRangeSafe start0 end0 this))"
proof -
  have "0 \<le> len this" by (simp add: len_def)
  with assms show "exactInt (min (max start0 end0) (len this) - min start0 end0)"
    by (auto simp: exactInt_def smallInt_def min_def max_def)
  from assms \<open>0 \<le> len this\<close>
  show "smallInt (insertionPoint (clearRangeSafe start0 end0 this))"
    by (auto simp: clearRangeSafe_unfold clearRangeSafe_spec_def Let_def smallInt_def
          min_def max_def)
qed

lemma replaceRange_exact:
  assumes "smallInt start0" and "smallInt end0" and "smallInt (insertionPoint this)"
    and "len this \<le> 2 ^ 52" and "int (length text) \<le> 2 ^ 52"
  shows "exactInt (min start0 end0 + int (length text))"
    and "exactInt (insertionPoint this - min (max start0 end0) (len this))"
    and "exactInt (insertionPoint (replaceRange start0 end0 text this))"
proof -
  have l: "0 \<le> len this" by (simp add: len_def)
  from assms show "exactInt (min start0 end0 + int (length text))"
    by (auto simp: exactInt_def smallInt_def min_def)
  from assms l show "exactInt (insertionPoint this - min (max start0 end0) (len this))"
    by (auto simp: exactInt_def smallInt_def min_def max_def)
  from assms l show "exactInt (insertionPoint (replaceRange start0 end0 text this))"
    by (auto simp: replaceRange_unfold Let_def exactInt_def smallInt_def min_def max_def)
qed

subsection \<open>The empty buffer\<close>

lemma new_fields:
  "lines LineBuffer_new = []" "insertionPoint LineBuffer_new = 0" "len LineBuffer_new = 0"
  by (simp_all add: LineBuffer_new_def len_def)

lemma new_update:
  "LineBuffer_new\<lparr>insertionPoint := 0\<rparr> = LineBuffer_new"
  "LineBuffer_new\<lparr>lines := []\<rparr> = LineBuffer_new"
  "\<lparr>lines = [], insertionPoint = 0\<rparr> = LineBuffer_new"
  by (simp_all add: LineBuffer_new_def)

lemma new_findCurrentLineEnd: "findCurrentLineEnd LineBuffer_new = 0"
  by (simp add: findCurrentLineEnd_def new_fields substringFrom_Nil indexOf_def)

lemma new_getGraphemeIndices: "getGraphemeIndices LineBuffer_new = [0]"
  by (simp add: getGraphemeIndices_def new_fields)

lemma new_graphemeRightIndex: "graphemeRightIndex LineBuffer_new = 0"
  by (simp add: graphemeRightIndex_def new_getGraphemeIndices new_fields findIndex_def)

lemma new_graphemeLeftIndex: "graphemeLeftIndex LineBuffer_new = 0"
  by (simp add: graphemeLeftIndex_def new_getGraphemeIndices new_fields findIndex_def)

lemma splitWordBoundaries_Nil: "splitWordBoundaries [] = []"
  by (simp add: splitWordBoundaries_def)

lemma new_word_indices:
  "wordRightIndex LineBuffer_new = 0"
  "bigWordRightIndex LineBuffer_new = 0"
  "wordRightEndIndex LineBuffer_new = 0"
  "bigWordRightEndIndex LineBuffer_new = 0"
  "wordRightStartIndex LineBuffer_new = 0"
  "bigWordRightStartIndex LineBuffer_new = 0"
  "wordLeftIndex LineBuffer_new = 0"
  "bigWordLeftIndex LineBuffer_new = 0"
  by (simp_all add: wordRightIndex_def bigWordRightIndex_def wordRightEndIndex_def
        bigWordRightEndIndex_def wordRightStartIndex_def bigWordRightStartIndex_def
        wordLeftIndex_def bigWordLeftIndex_def new_fields substringFrom_Nil substring_Nil
        splitWordBoundaries_Nil)

text \<open>Only the empty string is found in the empty buffer, at offset 0.\<close>

lemma new_findCharRight:
  "findCharRight c currentLine LineBuffer_new = (if c = [] then Some 0 else None)"
  by (simp add: findCharRight_def new_fields substring_Nil indexOf_def Let_def)

lemma new_findCharLeft:
  "findCharLeft c currentLine LineBuffer_new = (if c = [] then Some 0 else None)"
  by (simp add: findCharLeft_def new_fields substring_Nil lastIndexOf_def lastIndexOfAt_def
        matchesAt_def Let_def)

lemma new_clearRangeSafe_lines: "lines (clearRangeSafe start end' LineBuffer_new) = []"
  by (simp add: clearRangeSafe_def new_fields substring_Nil substringFrom_Nil Let_def)

lemma new_clearRangeSafe_00: "clearRangeSafe 0 0 LineBuffer_new = LineBuffer_new"
  by (simp add: clearRangeSafe_def new_fields Let_def)

subsection \<open>The matching-pair loop\<close>


text \<open>
  What it returns is a pair of offsets into the buffer, a left delimiter before a right
  one, with one of them at the cursor.
\<close>

lemma findMatchingPair_loop_sound:
  "findMatchingPair_loop l r cursor i rest stack = Some (a, b) \<Longrightarrow>
   \<forall>j \<in> set stack. j < i \<and> [whole ! j] = l \<Longrightarrow>
   rest = drop i whole \<Longrightarrow>
   0 \<le> a \<and> a < b \<and> b < int (length whole) \<and> [whole ! nat a] = l \<and> [whole ! nat b] = r
     \<and> (b = cursor \<or> a = cursor)"
proof (induction rest arbitrary: i stack)
  case Nil
  then show ?case by simp
next
  case (Cons c rest)
  have i: "i < length whole" using Cons.prems(3)
    by (metis drop_all list.distinct(1) not_le)
  have c: "c = whole ! i" and rest: "rest = drop (Suc i) whole"
    using Cons.prems(3) i by (metis Cons_nth_drop_Suc list.inject)+
  show ?case
  proof (cases "[c] = l")
    case True
    have "\<forall>j \<in> set (i # stack). j < Suc i \<and> [whole ! j] = l"
      using Cons.prems(2) True c by auto
    with Cons.IH[of "Suc i" "i # stack"] Cons.prems(1) True rest show ?thesis by simp
  next
    case False
    show ?thesis
    proof (cases "[c] = r")
      case r: True
      show ?thesis
      proof (cases stack)
        case Nil
        with Cons.IH[of "Suc i" "[]"] Cons.prems(1) False r rest show ?thesis by simp
      next
        case (Cons li stack')
        have li: "li < i" "[whole ! li] = l" using Cons.prems(2) Cons by auto
        show ?thesis
        proof (cases "int i = cursor \<or> int li = cursor")
          case True
          then have "a = int li" "b = int i"
            using Cons.prems(1) False r Cons by (auto split: if_splits)
          then show ?thesis using li i r c True by auto
        next
          case nt: False
          have "\<forall>j \<in> set stack'. j < Suc i \<and> [whole ! j] = l"
            using Cons.prems(2) Cons by auto
          with Cons.IH[of "Suc i" stack'] Cons.prems(1) False r Cons nt rest
          show ?thesis by simp
        qed
      qed
    next
      case nr: False
      have "\<forall>j \<in> set stack. j < Suc i \<and> [whole ! j] = l"
        using Cons.prems(2) by auto
      with Cons.IH[of "Suc i" stack] Cons.prems(1) False nr rest show ?thesis by simp
    qed
  qed
qed

lemma findMatchingPair_sound:
  assumes "findMatchingPair l r cursor this = Some (a, b)"
  shows "0 \<le> a \<and> a < b \<and> b < len this
    \<and> [lines this ! nat a] = l \<and> [lines this ! nat b] = r \<and> (b = cursor \<or> a = cursor)"
  using findMatchingPair_loop_sound [of l r cursor 0 "lines this" "[]" a b "lines this"] assms
  by (simp add: findMatchingPair_def len_def)

section \<open>The claims\<close>

text \<open>
  C1. Every state reached from \<open>LineBuffer.from\<close> by the public mutating operations
  should satisfy \<open>isValid\<close>. The code does not keep this: \<open>moveLineDown\<close> carries the
  column over in code units. From the letter a, a line feed and the emoji U+1F600 (the
  surrogate pair D83D DE00), \<open>moveToStart\<close>, \<open>moveRight\<close> and \<open>moveLineDown\<close> pass through valid
  states and end at offset 3, between the two halves of the pair, where \<open>isValid\<close> is
  false.
\<close>

theorem moveLineDown_leaves_invalid_cursor:
  "isValid (LineBuffer_from [0x61, 0x0A, 0xD83D, 0xDE00])
   \<and> isValid (moveToStart (LineBuffer_from [0x61, 0x0A, 0xD83D, 0xDE00]))
   \<and> isValid (moveRight (moveToStart (LineBuffer_from [0x61, 0x0A, 0xD83D, 0xDE00])))
   \<and> moveLineDown (moveRight (moveToStart (LineBuffer_from [0x61, 0x0A, 0xD83D, 0xDE00])))
       = \<lparr>lines = [0x61, 0x0A, 0xD83D, 0xDE00], insertionPoint = 3\<rparr>
   \<and> getGraphemeIndices \<lparr>lines = [0x61, 0x0A, 0xD83D, 0xDE00], insertionPoint = 3\<rparr>
       = [0, 1, 2, 4]
   \<and> \<not> isValid (moveLineDown (moveRight (moveToStart
           (LineBuffer_from [0x61, 0x0A, 0xD83D, 0xDE00]))))"
  by code_simp

text \<open>
  C2, as stated: for every buffer state and all integers \<open>start\<close> and \<open>end\<close>,
  \<open>clearRangeSafe\<close> follows the canonical range law. The code returns at once when the
  smaller argument is at or beyond the length, so on \<open>"abc"\<close> with the insertion point
  set to 10, \<open>clearRangeSafe(5, 7)\<close> leaves the cursor at 10, where the law moves a cursor
  behind the range by \<open>end - start\<close> (to 12 with \<open>end\<close> clamped to 3, to 8 with \<open>end\<close>
  taken as 7).
\<close>

theorem clearRangeSafe_early_return_counterexample:
  "clearRangeSafe 5 7 \<lparr>lines = js ''abc'', insertionPoint = 10\<rparr>
     = \<lparr>lines = js ''abc'', insertionPoint = 10\<rparr>
   \<and> clearRangeSafe_spec 5 7 \<lparr>lines = js ''abc'', insertionPoint = 10\<rparr>
     = \<lparr>lines = js ''abc'', insertionPoint = 12\<rparr>
   \<and> clearRangeSafe 5 7 \<lparr>lines = js ''abc'', insertionPoint = 10\<rparr>
     \<noteq> clearRangeSafe_spec 5 7 \<lparr>lines = js ''abc'', insertionPoint = 10\<rparr>"
  by code_simp

text \<open>
  C2, amended: for every buffer state and all integers \<open>start\<close> and \<open>end\<close>, where
  \<open>start\<close>, \<open>end\<close> and the insertion point have magnitude at most \<open>2 ^ 52\<close> and the
  buffer has at most \<open>2 ^ 52\<close> code units: \<open>clearRangeSafe(start, end)\<close> changes nothing
  when the smaller of the two arguments is at or beyond the buffer length; otherwise it
  follows the canonical range law: the arguments are swapped when \<open>start > end\<close>, \<open>end\<close>
  is clamped to the length, \<open>[start, end)\<close> is removed, and the insertion point is
  unchanged if it was before \<open>start\<close>, becomes \<open>start\<close> if it was in \<open>[start, end]\<close>, and
  moves left by \<open>end - start\<close> if it was behind \<open>end\<close>. Within these bounds the
  difference \<open>end - start\<close> and the new insertion point are integers that a double
  holds exactly, so the code's arithmetic is the exact one.
\<close>

theorem clearRangeSafe_law:
  assumes "smallInt start0" and "smallInt end0" and "smallInt (insertionPoint this)"
    and "len this \<le> 2 ^ 52"
  shows "clearRangeSafe start0 end0 this =
       (if len this \<le> min start0 end0 then this else clearRangeSafe_spec start0 end0 this)
     \<and> exactInt (min (max start0 end0) (len this) - min start0 end0)
     \<and> smallInt (insertionPoint (clearRangeSafe start0 end0 this))"
  using clearRangeSafe_unfold [of start0 end0 this] clearRangeSafe_exact [OF assms]
  by (simp only: simp_thms)

theorem clearRangeSafe_law_witness:
  "smallInt 3 \<and> smallInt 1 \<and> smallInt 5
   \<and> len \<lparr>lines = js ''abcdef'', insertionPoint = 5\<rparr> \<le> 2 ^ 52
   \<and> clearRangeSafe 3 1 \<lparr>lines = js ''abcdef'', insertionPoint = 5\<rparr>
     = \<lparr>lines = js ''adef'', insertionPoint = 3\<rparr>"
proof -
  have h: "smallInt 3" "smallInt 1"
      "smallInt (insertionPoint \<lparr>lines = js ''abcdef'', insertionPoint = 5\<rparr>)"
      "len \<lparr>lines = js ''abcdef'', insertionPoint = 5\<rparr> \<le> 2 ^ 52"
    by (simp_all add: smallInt_def len_def js_def)
  have n: "\<not> len \<lparr>lines = js ''abcdef'', insertionPoint = 5\<rparr> \<le> min 3 1"
    by code_simp
  have e: "clearRangeSafe_spec 3 1 \<lparr>lines = js ''abcdef'', insertionPoint = 5\<rparr>
      = \<lparr>lines = js ''adef'', insertionPoint = 3\<rparr>"
    by code_simp
  from clearRangeSafe_law [OF h]
  have "clearRangeSafe 3 1 \<lparr>lines = js ''abcdef'', insertionPoint = 5\<rparr>
     = \<lparr>lines = js ''adef'', insertionPoint = 3\<rparr>"
    using n e by (simp only: if_False)
  with h show ?thesis by simp
qed

text \<open>
  C3, as stated: \<open>replaceRange\<close> follows the same law as \<open>clearRangeSafe\<close>, the cursor
  becomes \<open>start\<close> when it was in \<open>[start, end]\<close>, and \<open>replaceRange(length, length, text)\<close>
  appends. On the code, \<open>replaceRange(3, 3, "x")\<close> on \<open>"abc"\<close> changes nothing, and
  \<open>replaceRange(0, 2, "xyz")\<close> on \<open>"abc"\<close> with the cursor at 1 puts the cursor at 3,
  behind the inserted text, not at 0.
\<close>

theorem replaceRange_append_and_cursor_counterexample:
  "replaceRange 3 3 (js ''x'') \<lparr>lines = js ''abc'', insertionPoint = 3\<rparr>
     = \<lparr>lines = js ''abc'', insertionPoint = 3\<rparr>
   \<and> replaceRange_spec 3 3 (js ''x'') \<lparr>lines = js ''abc'', insertionPoint = 3\<rparr>
     = \<lparr>lines = js ''abcx'', insertionPoint = 3\<rparr>
   \<and> replaceRange 0 2 (js ''xyz'') \<lparr>lines = js ''abc'', insertionPoint = 1\<rparr>
     = \<lparr>lines = js ''xyzc'', insertionPoint = 3\<rparr>
   \<and> replaceRange_spec 0 2 (js ''xyz'') \<lparr>lines = js ''abc'', insertionPoint = 1\<rparr>
     = \<lparr>lines = js ''xyzc'', insertionPoint = 0\<rparr>"
  by code_simp

text \<open>
  C3, amended: for every buffer state, all integers \<open>start\<close> and \<open>end\<close> and every string
  \<open>text\<close>, where \<open>start\<close>, \<open>end\<close> and the insertion point have magnitude at most
  \<open>2 ^ 52\<close> and the buffer and \<open>text\<close> have at most \<open>2 ^ 52\<close> code units each:
  \<open>replaceRange(start, end, text)\<close> swaps the arguments when \<open>start > end\<close> and changes
  nothing when \<open>start\<close> is then at or beyond the buffer length (so
  \<open>replaceRange(length, length, text)\<close> does not append); otherwise it clamps \<open>end\<close> to
  the length and replaces \<open>[start, end)\<close> with \<open>text\<close>, and the insertion point is
  unchanged if it was at or before \<open>start\<close>, becomes \<open>start + len(text)\<close> if it was in
  \<open>(start, end]\<close>, and becomes its old value shifted by \<open>len(text) - (end - start)\<close> if it
  was behind \<open>end\<close>. Within these bounds the two intermediate values of the code,
  \<open>start + len(text)\<close> and \<open>insertionPoint - end\<close>, and the new insertion point are
  integers that a double holds exactly, so the code's arithmetic is the exact one.
\<close>

theorem replaceRange_law:
  assumes "smallInt start0" and "smallInt end0" and "smallInt (insertionPoint this)"
    and "len this \<le> 2 ^ 52" and "int (length text) \<le> 2 ^ 52"
  shows "replaceRange start0 end0 text this =
       (let start = min start0 end0;
            end1 = min (max start0 end0) (len this);
            ip = insertionPoint this
        in if len this \<le> start then this
           else
             \<lparr>lines = take (nat start) (lines this) @ text @ drop (nat end1) (lines this),
              insertionPoint =
                (if ip \<le> start then ip
                 else if ip \<le> end1 then start + int (length text)
                 else ip + (int (length text) - (end1 - start)))\<rparr>)
     \<and> exactInt (min start0 end0 + int (length text))
     \<and> exactInt (insertionPoint this - min (max start0 end0) (len this))
     \<and> exactInt (insertionPoint (replaceRange start0 end0 text this))"
  using replaceRange_unfold [of start0 end0 "text" this] replaceRange_exact [OF assms]
  by (simp only: simp_thms)

theorem replaceRange_law_witness:
  "smallInt 5 \<and> smallInt 2 \<and> smallInt 6
   \<and> len \<lparr>lines = js ''abcdefg'', insertionPoint = 6\<rparr> \<le> 2 ^ 52
   \<and> int (length (js ''XY'')) \<le> 2 ^ 52
   \<and> replaceRange 5 2 (js ''XY'') \<lparr>lines = js ''abcdefg'', insertionPoint = 6\<rparr>
     = \<lparr>lines = js ''abXYfg'', insertionPoint = 5\<rparr>"
proof -
  have h: "smallInt 5" "smallInt 2"
      "smallInt (insertionPoint \<lparr>lines = js ''abcdefg'', insertionPoint = 6\<rparr>)"
      "len \<lparr>lines = js ''abcdefg'', insertionPoint = 6\<rparr> \<le> 2 ^ 52"
      "int (length (js ''XY'')) \<le> 2 ^ 52"
    by (simp_all add: smallInt_def len_def js_def)
  from replaceRange_law [OF h]
  have "replaceRange 5 2 (js ''XY'') \<lparr>lines = js ''abcdefg'', insertionPoint = 6\<rparr>
     = \<lparr>lines = js ''abXYfg'', insertionPoint = 5\<rparr>"
    by (simp add: js_def len_def)
  with h show ?thesis by simp
qed

text \<open>
  C4. For every buffer state with \<open>isValid()\<close> true, with \<open>g = graphemeLeft()\<close>, running
  \<open>deleteLeftGrapheme()\<close> and then \<open>insertStr(g)\<close> restores the original buffer text and
  the original insertion point.
\<close>

theorem deleteLeftGrapheme_insertStr_roundtrip:
  assumes "isValid this"
  shows "insertStr (graphemeLeft this) (deleteLeftGrapheme this) = this"
proof -
  let ?ip = "insertionPoint this" and ?L = "graphemeLeftIndex this" and ?xs = "lines this"
  from assms have ip: "0 \<le> ?ip" "?ip \<le> int (length ?xs)"
    using isValid_range [of this] by (simp_all add: len_def)
  then have L: "0 \<le> ?L" "?L \<le> ?ip"
    using graphemeLeftIndex_bounds [of this] by simp_all
  have g: "graphemeLeft this = drop (nat ?L) (take (nat ?ip) ?xs)"
    using L by (simp add: graphemeLeft_def substring_ordered)
  have rejoin: "take (nat ?L) ?xs @ drop (nat ?L) (take (nat ?ip) ?xs) = take (nat ?ip) ?xs"
    using L by (metis append_take_drop_id nat_mono take_take min.absorb1)
  show ?thesis
  proof (cases "int (length ?xs) \<le> ?L")
    case True
    with ip L have "deleteLeftGrapheme this = this" and "graphemeLeft this = []"
      by (simp_all add: deleteLeftGrapheme_def clearRangeSafe_def len_def g)
    then show ?thesis
      by (simp add: insertStr_def substring_0 substringFrom_drop)
  next
    case False
    with ip L have d: "deleteLeftGrapheme this
        = \<lparr>lines = take (nat ?L) ?xs @ drop (nat ?ip) ?xs, insertionPoint = ?L\<rparr>"
      by (simp add: deleteLeftGrapheme_def clearRangeSafe_def len_def Let_def substring_0
            substringFrom_drop)
    have lenL: "length (take (nat ?L) ?xs) = nat ?L"
      using False by simp
    have "insertStr (graphemeLeft this) (deleteLeftGrapheme this)
        = \<lparr>lines = take (nat ?L) ?xs @ drop (nat ?L) (take (nat ?ip) ?xs) @ drop (nat ?ip) ?xs,
            insertionPoint = ?L + int (length (drop (nat ?L) (take (nat ?ip) ?xs)))\<rparr>"
      unfolding d g insertStr_def substring_0 substringFrom_drop
      using lenL by simp
    also have "\<dots> = \<lparr>lines = ?xs, insertionPoint = ?ip\<rparr>"
      using rejoin ip L by (simp flip: append_assoc)
    finally show ?thesis by simp
  qed
qed

text \<open>The witness deletes and reinserts an emoji of two code units (U+1F60A).\<close>

theorem deleteLeftGrapheme_insertStr_roundtrip_witness:
  "isValid \<lparr>lines = [0x61, 0x20, 0xD83D, 0xDE0A], insertionPoint = 4\<rparr>
   \<and> graphemeLeft \<lparr>lines = [0x61, 0x20, 0xD83D, 0xDE0A], insertionPoint = 4\<rparr>
       = [0xD83D, 0xDE0A]
   \<and> deleteLeftGrapheme \<lparr>lines = [0x61, 0x20, 0xD83D, 0xDE0A], insertionPoint = 4\<rparr>
       = \<lparr>lines = [0x61, 0x20], insertionPoint = 2\<rparr>
   \<and> insertStr [0xD83D, 0xDE0A] \<lparr>lines = [0x61, 0x20], insertionPoint = 2\<rparr>
       = \<lparr>lines = [0x61, 0x20, 0xD83D, 0xDE0A], insertionPoint = 4\<rparr>"
proof -
  have v: "isValid \<lparr>lines = [0x61, 0x20, 0xD83D, 0xDE0A], insertionPoint = 4\<rparr>"
    by code_simp
  have g: "graphemeLeft \<lparr>lines = [0x61, 0x20, 0xD83D, 0xDE0A], insertionPoint = 4\<rparr>
       = [0xD83D, 0xDE0A]"
    by code_simp
  have d: "deleteLeftGrapheme \<lparr>lines = [0x61, 0x20, 0xD83D, 0xDE0A], insertionPoint = 4\<rparr>
       = \<lparr>lines = [0x61, 0x20], insertionPoint = 2\<rparr>"
    by code_simp
  from deleteLeftGrapheme_insertStr_roundtrip [OF v]
  have "insertStr [0xD83D, 0xDE0A] \<lparr>lines = [0x61, 0x20], insertionPoint = 2\<rparr>
       = \<lparr>lines = [0x61, 0x20, 0xD83D, 0xDE0A], insertionPoint = 4\<rparr>"
    by (simp only: g d)
  with v g d show ?thesis by (simp only: simp_thms)
qed

text \<open>
  C5. On the buffer holding the single emoji U+1F600 (two code units) with the cursor
  at 0, \<open>moveWordRight\<close> should move to the buffer length 2. The word splitter matches
  code units, so each half of the surrogate pair is a piece of its own, and the cursor
  stops at 1, inside the pair.
\<close>

theorem moveWordRight_splits_surrogate_pair:
  "splitWordBoundaries [0xD83D, 0xDE00] = [(0, [0xD83D]), (1, [0xDE00])]
   \<and> moveWordRight \<lparr>lines = [0xD83D, 0xDE00], insertionPoint = 0\<rparr>
       = \<lparr>lines = [0xD83D, 0xDE00], insertionPoint = 1\<rparr>
   \<and> len \<lparr>lines = [0xD83D, 0xDE00], insertionPoint = 0\<rparr> = 2
   \<and> \<not> isValid (moveWordRight \<lparr>lines = [0xD83D, 0xDE00], insertionPoint = 0\<rparr>)"
  by code_simp

text \<open>
  C6. On the empty buffer every navigation method leaves the cursor at 0 (the buffer
  comes back as it was; the four searching moves also return 0), and every deletion
  method leaves the text unchanged, for every searched string \<open>c\<close>, either value of
  \<open>currentLine\<close> and all integers \<open>start\<close> and \<open>end\<close>. All deletions but
  \<open>clearRangeSafe\<close> leave the cursor at 0 as well.
\<close>

theorem empty_buffer_navigation_and_deletion:
  "moveToStart LineBuffer_new = LineBuffer_new
   \<and> moveToLineStart LineBuffer_new = LineBuffer_new
   \<and> moveToLineEnd LineBuffer_new = LineBuffer_new
   \<and> moveToEnd LineBuffer_new = LineBuffer_new
   \<and> moveLeft LineBuffer_new = LineBuffer_new
   \<and> moveRight LineBuffer_new = LineBuffer_new
   \<and> moveWordLeft LineBuffer_new = LineBuffer_new
   \<and> moveBigWordLeft LineBuffer_new = LineBuffer_new
   \<and> moveWordRight LineBuffer_new = LineBuffer_new
   \<and> moveWordRightStart LineBuffer_new = LineBuffer_new
   \<and> moveBigWordRightStart LineBuffer_new = LineBuffer_new
   \<and> moveWordRightEnd LineBuffer_new = LineBuffer_new
   \<and> moveBigWordRightEnd LineBuffer_new = LineBuffer_new
   \<and> moveLineUp LineBuffer_new = LineBuffer_new
   \<and> moveLineDown LineBuffer_new = LineBuffer_new
   \<and> moveRightUntil c currentLine LineBuffer_new = (0, LineBuffer_new)
   \<and> moveRightBefore c currentLine LineBuffer_new = (0, LineBuffer_new)
   \<and> moveLeftUntil c currentLine LineBuffer_new = (0, LineBuffer_new)
   \<and> moveLeftBefore c currentLine LineBuffer_new = (0, LineBuffer_new)
   \<and> clear LineBuffer_new = LineBuffer_new
   \<and> clearToEnd LineBuffer_new = LineBuffer_new
   \<and> clearToLineEnd LineBuffer_new = LineBuffer_new
   \<and> clearToInsertionPoint LineBuffer_new = LineBuffer_new
   \<and> lines (clearRangeSafe start end' LineBuffer_new) = lines LineBuffer_new
   \<and> deleteLeftGrapheme LineBuffer_new = LineBuffer_new
   \<and> deleteRightGrapheme LineBuffer_new = LineBuffer_new
   \<and> deleteWordLeft LineBuffer_new = LineBuffer_new
   \<and> deleteWordRight LineBuffer_new = LineBuffer_new
   \<and> deleteRightUntilChar c currentLine LineBuffer_new = LineBuffer_new
   \<and> deleteRightBeforeChar c currentLine LineBuffer_new = LineBuffer_new
   \<and> deleteLeftUntilChar c currentLine LineBuffer_new = LineBuffer_new
   \<and> deleteLeftBeforeChar c currentLine LineBuffer_new = LineBuffer_new"
proof (intro conjI)
  show "moveToStart LineBuffer_new = LineBuffer_new"
    by (simp add: moveToStart_def new_update)
  show "moveToLineStart LineBuffer_new = LineBuffer_new"
    by (simp add: moveToLineStart_def new_fields substring_Nil lastIndexOf_def
          lastIndexOfAt_def matchesAt_def new_update)
  show "moveToLineEnd LineBuffer_new = LineBuffer_new"
    by (simp add: moveToLineEnd_def new_findCurrentLineEnd new_update)
  show "moveToEnd LineBuffer_new = LineBuffer_new"
    by (simp add: moveToEnd_def new_fields new_update)
  show "moveLeft LineBuffer_new = LineBuffer_new"
    by (simp add: moveLeft_def new_graphemeLeftIndex new_update)
  show "moveRight LineBuffer_new = LineBuffer_new"
    by (simp add: moveRight_def new_graphemeRightIndex new_update)
  show "moveWordLeft LineBuffer_new = LineBuffer_new"
    by (simp add: moveWordLeft_def new_word_indices new_update)
  show "moveBigWordLeft LineBuffer_new = LineBuffer_new"
    by (simp add: moveBigWordLeft_def new_word_indices new_update)
  show "moveWordRight LineBuffer_new = LineBuffer_new"
    by (simp add: moveWordRight_def new_word_indices new_update)
  show "moveWordRightStart LineBuffer_new = LineBuffer_new"
    by (simp add: moveWordRightStart_def new_word_indices new_update)
  show "moveBigWordRightStart LineBuffer_new = LineBuffer_new"
    by (simp add: moveBigWordRightStart_def new_word_indices new_update)
  show "moveWordRightEnd LineBuffer_new = LineBuffer_new"
    by (simp add: moveWordRightEnd_def new_word_indices new_update)
  show "moveBigWordRightEnd LineBuffer_new = LineBuffer_new"
    by (simp add: moveBigWordRightEnd_def new_word_indices new_update)
  show "moveLineUp LineBuffer_new = LineBuffer_new"
    by (simp add: moveLineUp_def new_fields substring_Nil)
  show "moveLineDown LineBuffer_new = LineBuffer_new"
    by (simp add: moveLineDown_def new_fields substringFrom_Nil)
  show "moveRightUntil c currentLine LineBuffer_new = (0, LineBuffer_new)"
    by (simp add: moveRightUntil_def new_findCharRight new_fields new_update)
  show "moveRightBefore c currentLine LineBuffer_new = (0, LineBuffer_new)"
    by (simp add: moveRightBefore_def new_findCharRight new_fields new_update)
  show "moveLeftUntil c currentLine LineBuffer_new = (0, LineBuffer_new)"
    by (simp add: moveLeftUntil_def new_findCharLeft new_fields new_update)
  show "moveLeftBefore c currentLine LineBuffer_new = (0, LineBuffer_new)"
    by (simp add: moveLeftBefore_def new_findCharLeft new_fields new_update)
  show "clear LineBuffer_new = LineBuffer_new"
    by (simp add: clear_def new_update)
  show "clearToEnd LineBuffer_new = LineBuffer_new"
    by (simp add: clearToEnd_def new_fields substring_Nil new_update)
  show "clearToLineEnd LineBuffer_new = LineBuffer_new"
    by (simp add: clearToLineEnd_def new_fields substring_Nil substringFrom_Nil new_update)
  show "clearToInsertionPoint LineBuffer_new = LineBuffer_new"
    by (simp add: clearToInsertionPoint_def new_fields substringFrom_Nil new_update)
  show "lines (clearRangeSafe start end' LineBuffer_new) = lines LineBuffer_new"
    by (simp add: new_clearRangeSafe_lines new_fields)
  show "deleteLeftGrapheme LineBuffer_new = LineBuffer_new"
    by (simp add: deleteLeftGrapheme_def new_graphemeLeftIndex new_fields
          new_clearRangeSafe_00)
  show "deleteRightGrapheme LineBuffer_new = LineBuffer_new"
    by (simp add: deleteRightGrapheme_def new_graphemeRightIndex new_fields
          new_clearRangeSafe_00)
  show "deleteWordLeft LineBuffer_new = LineBuffer_new"
    by (simp add: deleteWordLeft_def new_word_indices new_fields new_clearRangeSafe_00)
  show "deleteWordRight LineBuffer_new = LineBuffer_new"
    by (simp add: deleteWordRight_def new_word_indices new_fields new_clearRangeSafe_00)
  show "deleteRightUntilChar c currentLine LineBuffer_new = LineBuffer_new"
    by (simp add: deleteRightUntilChar_def new_findCharRight new_fields
          new_clearRangeSafe_00)
  show "deleteRightBeforeChar c currentLine LineBuffer_new = LineBuffer_new"
    by (simp add: deleteRightBeforeChar_def new_findCharRight new_fields
          new_clearRangeSafe_00)
  show "deleteLeftUntilChar c currentLine LineBuffer_new = LineBuffer_new"
    by (simp add: deleteLeftUntilChar_def new_findCharLeft new_fields new_clearRangeSafe_00)
  show "deleteLeftBeforeChar c currentLine LineBuffer_new = LineBuffer_new"
    by (simp add: deleteLeftBeforeChar_def new_findCharLeft new_fields
          new_clearRangeSafe_00)
qed

theorem empty_buffer_navigation_and_deletion_witness:
  "moveRightUntil (js ''x'') True LineBuffer_new = (0, LineBuffer_new)
   \<and> moveLeftBefore [] False LineBuffer_new = (0, LineBuffer_new)
   \<and> lines (clearRangeSafe (- 2) 3 LineBuffer_new) = lines LineBuffer_new
   \<and> deleteRightUntilChar (js ''x'') True LineBuffer_new = LineBuffer_new"
  using empty_buffer_navigation_and_deletion [of "js ''x''" True "- 2" 3]
        empty_buffer_navigation_and_deletion [of "[]" False 0 0]
  by (simp only: simp_thms)

text \<open>
  C7. Scenario B: on \<open>"word and another one"\<close> with the cursor at 0, \<open>moveWordRightEnd\<close>
  should move to 3. The code returns the start of the first whitespace piece after a
  word, which is 4.
\<close>

theorem moveWordRightEnd_scenario_B:
  "moveWordRightEnd \<lparr>lines = js ''word and another one'', insertionPoint = 0\<rparr>
     = \<lparr>lines = js ''word and another one'', insertionPoint = 4\<rparr>"
  by code_simp

text \<open>
  C8. Scenario E: on \<open>"ab"\<close> with the cursor at 0, \<open>swapGraphemes\<close> should give \<open>"ba"\<close>
  with the cursor at 1. The code takes the grapheme left of the cursor, which is empty
  at 0, and then changes nothing.
\<close>

theorem swapGraphemes_scenario_E:
  "graphemeLeft \<lparr>lines = js ''ab'', insertionPoint = 0\<rparr> = []
   \<and> swapGraphemes \<lparr>lines = js ''ab'', insertionPoint = 0\<rparr>
       = \<lparr>lines = js ''ab'', insertionPoint = 0\<rparr>"
  by code_simp



text \<open>
  C10. When the code unit at the insertion point is a line feed and the one before it a
  carriage return, the state is valid, \<open>findCurrentLineEnd()\<close> returns the insertion
  point minus one, and \<open>moveToLineEnd()\<close> moves the cursor left, onto the carriage
  return.
\<close>

theorem findCurrentLineEnd_between_cr_lf:
  assumes "0 < insertionPoint this"
    and "insertionPoint this < len this"
    and "lines this ! nat (insertionPoint this) = 0x0A"
    and "lines this ! nat (insertionPoint this - 1) = 0x0D"
  shows "isValid this
    \<and> findCurrentLineEnd this = insertionPoint this - 1
    \<and> findCurrentLineEnd this < insertionPoint this
    \<and> moveToLineEnd this = this\<lparr>insertionPoint := insertionPoint this - 1\<rparr>
    \<and> lines (moveToLineEnd this) ! nat (insertionPoint (moveToLineEnd this)) = 0x0D"
proof -
  let ?ip = "insertionPoint this"
  have lt: "nat ?ip < length (lines this)"
    using assms(1,2) by (simp add: len_def)
  have "substringFrom (lines this) ?ip
          = 0x0A # drop (Suc (nat ?ip)) (lines this)"
    using lt assms(3) by (simp add: substringFrom_drop flip: Cons_nth_drop_Suc)
  then have idx: "indexOf (substringFrom (lines this) ?ip) [0x0A] = 0"
    by (simp add: indexOf_newline_head)
  have cr: "charCodeAt (lines this) (?ip - 1) = Some 13"
    using assms by (simp add: charCodeAt_def len_def)
  have fe: "findCurrentLineEnd this = ?ip - 1"
    using assms(1) idx cr by (simp add: findCurrentLineEnd_def Let_def)
  have "nat ?ip - 1 = nat (?ip - 1)"
    using assms(1) by simp
  then have nh: "\<not> isHighSurrogate (lines this ! (nat ?ip - 1))"
    using assms(4) by (simp add: isHighSurrogate_def)
  have "0 + int (nat ?ip) \<in> set (getGraphemeIndices_loop 0 (arrayFrom (lines this)))"
    using assms(1) lt nh by (intro getGraphemeIndices_loop_boundary) auto
  then have v: "isValid this"
    using assms(1,2) by (simp add: isValid_def getGraphemeIndices_def list_ex_iff)
  show ?thesis
    using fe v assms(1,4) by (simp add: moveToLineEnd_def)
qed

text \<open>
  The witness: the letter a, a carriage return, a line feed and the letter b, with the
  cursor at 2, a position reached from the end of the buffer by two \<open>moveLeft\<close>.
\<close>

theorem findCurrentLineEnd_between_cr_lf_witness:
  "moveLeft (moveLeft (LineBuffer_from [0x61, 0x0D, 0x0A, 0x62]))
     = \<lparr>lines = [0x61, 0x0D, 0x0A, 0x62], insertionPoint = 2\<rparr>
   \<and> isValid \<lparr>lines = [0x61, 0x0D, 0x0A, 0x62], insertionPoint = 2\<rparr>
   \<and> findCurrentLineEnd \<lparr>lines = [0x61, 0x0D, 0x0A, 0x62], insertionPoint = 2\<rparr> = 1
   \<and> moveToLineEnd \<lparr>lines = [0x61, 0x0D, 0x0A, 0x62], insertionPoint = 2\<rparr>
       = \<lparr>lines = [0x61, 0x0D, 0x0A, 0x62], insertionPoint = 1\<rparr>"
proof -
  have r: "moveLeft (moveLeft (LineBuffer_from [0x61, 0x0D, 0x0A, 0x62]))
     = \<lparr>lines = [0x61, 0x0D, 0x0A, 0x62], insertionPoint = 2\<rparr>"
    by code_simp
  show ?thesis
    using r findCurrentLineEnd_between_cr_lf
            [of "\<lparr>lines = [0x61, 0x0D, 0x0A, 0x62], insertionPoint = 2\<rparr>"]
    by (simp add: len_def)
qed

end
